theory Spec2Isabelle
  imports Complex_Main "HOL-Library.Sublist"
begin

section \<open>Data model\<close>

text \<open>
  The JSON documents the frontend receives from \<^verbatim>\<open>GET /api/events\<close> and renders, with
  the fields the components read and the two others of the data model (description,
  recommendations). The classification fields are strings, compared with \<^verbatim>\<open>===\<close>.
  \<^verbatim>\<open>news_articles\<close> may be absent on a document (the components guard every access with
  \<^verbatim>\<open>event.news_articles && ...\<close>), so it is optional; \<^verbatim>\<open>id\<close> is named \<open>event_id\<close>.
\<close>

record article =
  article_title :: string
  article_description :: string
  article_source :: string
  article_url :: string
  article_url_to_image :: string
  article_published_at :: string

record event =
  event_id :: string
  title :: string
  description :: string
  location :: string
  latitude :: real
  longitude :: real
  event_type :: string
  severity :: string
  status :: string
  ai_summary :: string
  recommendations :: "string list"
  timestamp :: string
  news_articles :: "article list option"


section \<open>Presentation filter (CrisisMap)\<close>

text \<open>
  \<^verbatim>\<open>
  const filteredEvents = events.filter(event => {
    const typeMatch = selectedEventType === 'all' || event.event_type === selectedEventType;
    const severityMatch = selectedSeverity === 'all' || event.severity === selectedSeverity;
    return typeMatch && severityMatch;
  });
  \<close>
  \<^verbatim>\<open>Array.prototype.filter\<close> keeps, in order, the elements on which the callback is true.
\<close>

definition filteredEvents :: "event list \<Rightarrow> string \<Rightarrow> string \<Rightarrow> event list" where
  "filteredEvents events selectedEventType selectedSeverity =
     filter (\<lambda>event.
       let typeMatch = (selectedEventType = ''all'' \<or> event_type event = selectedEventType);
           severityMatch = (selectedSeverity = ''all'' \<or> severity event = selectedSeverity)
       in typeMatch \<and> severityMatch) events"


section \<open>Dashboard statistics (Dashboard)\<close>

text \<open>
  \<^verbatim>\<open>
  const getStats = () => {
    const total = events.length;
    const critical = events.filter(e => e.severity === 'critical').length;
    const high = events.filter(e => e.severity === 'high').length;
    const active = events.filter(e => e.status === 'active').length;
    const withNews = events.filter(e => e.news_articles && e.news_articles.length > 0).length;
    return { total, critical, high, active, withNews };
  };
  \<close>
  An absent \<^verbatim>\<open>news_articles\<close> is falsy, so \<^verbatim>\<open>&&\<close> stops there; an array is truthy
  even when empty, so the second operand decides.
\<close>

record stats =
  total :: nat
  critical :: nat
  high :: nat
  active :: nat
  withNews :: nat

definition hasNews :: "event \<Rightarrow> bool" where
  "hasNews e = (case news_articles e of None \<Rightarrow> False | Some articles \<Rightarrow> length articles > 0)"

definition getStats :: "event list \<Rightarrow> stats" where
  "getStats events =
     \<lparr> total = length events,
       critical = length (filter (\<lambda>e. severity e = ''critical'') events),
       high = length (filter (\<lambda>e. severity e = ''high'') events),
       active = length (filter (\<lambda>e. status e = ''active'') events),
       withNews = length (filter hasNews events) \<rparr>"


section \<open>Display helpers (CrisisMap and EventCard)\<close>

text \<open>
  The helpers index an object literal with the given string and fall back with \<^verbatim>\<open>||\<close>:
  \<^verbatim>\<open>
  const getSeverityColor = (severity) => {
    const colors = { low: '#22c55e', medium: '#f59e0b', high: '#ef4444', critical: '#dc2626' };
    return colors[severity] || colors.medium;
  };
  \<close>
  \<^verbatim>\<open>colors[severity]\<close> is JavaScript's property read: the object's own properties first,
  then those of its prototype. The prototype of an object literal is \<^verbatim>\<open>Object.prototype\<close>,
  whose properties are built-in functions (and the \<^verbatim>\<open>__proto__\<close> accessor, which reads as
  \<^verbatim>\<open>Object.prototype\<close> itself); a name found nowhere reads as \<^verbatim>\<open>undefined\<close>.
  \<^verbatim>\<open>a || b\<close> is \<^verbatim>\<open>a\<close> when \<^verbatim>\<open>a\<close> is truthy and \<^verbatim>\<open>b\<close> otherwise; \<^verbatim>\<open>undefined\<close> and the empty
  string are falsy, functions and objects are truthy.
\<close>

datatype js_value = JSUndefined | JSString string | JSBuiltin string

fun truthy :: "js_value \<Rightarrow> bool" where
  "truthy JSUndefined = False"
| "truthy (JSString s) = (s \<noteq> [])"
| "truthy (JSBuiltin b) = True"

definition js_or :: "js_value \<Rightarrow> js_value \<Rightarrow> js_value" where
  "js_or a b = (if truthy a then a else b)"

definition Object_prototype :: "(string \<times> js_value) list" where
  "Object_prototype =
     [ (''constructor'', JSBuiltin ''Object''),
       (''__defineGetter__'', JSBuiltin ''Object.prototype.__defineGetter__''),
       (''__defineSetter__'', JSBuiltin ''Object.prototype.__defineSetter__''),
       (''hasOwnProperty'', JSBuiltin ''Object.prototype.hasOwnProperty''),
       (''__lookupGetter__'', JSBuiltin ''Object.prototype.__lookupGetter__''),
       (''__lookupSetter__'', JSBuiltin ''Object.prototype.__lookupSetter__''),
       (''isPrototypeOf'', JSBuiltin ''Object.prototype.isPrototypeOf''),
       (''propertyIsEnumerable'', JSBuiltin ''Object.prototype.propertyIsEnumerable''),
       (''toString'', JSBuiltin ''Object.prototype.toString''),
       (''valueOf'', JSBuiltin ''Object.prototype.valueOf''),
       (''__proto__'', JSBuiltin ''Object.prototype''),
       (''toLocaleString'', JSBuiltin ''Object.prototype.toLocaleString'') ]"

definition get_property :: "(string \<times> js_value) list \<Rightarrow> string \<Rightarrow> js_value" where
  "get_property own key =
     (case map_of own key of
        Some v \<Rightarrow> v
      | None \<Rightarrow> (case map_of Object_prototype key of Some v \<Rightarrow> v | None \<Rightarrow> JSUndefined))"

text \<open>CrisisMap: severity to a hex colour.\<close>

definition colors :: "(string \<times> js_value) list" where
  "colors =
     [ (''low'', JSString ''#22c55e''),
       (''medium'', JSString ''#f59e0b''),
       (''high'', JSString ''#ef4444''),
       (''critical'', JSString ''#dc2626'') ]"

definition getSeverityColor :: "string \<Rightarrow> js_value" where
  "getSeverityColor sev = js_or (get_property colors sev) (get_property colors ''medium'')"

text \<open>EventCard (Dashboard): severity to a list of CSS classes.\<close>

definition card_colors :: "(string \<times> js_value) list" where
  "card_colors =
     [ (''low'', JSString ''bg-green-100 text-green-800 border-green-200''),
       (''medium'', JSString ''bg-yellow-100 text-yellow-800 border-yellow-200''),
       (''high'', JSString ''bg-orange-100 text-orange-800 border-orange-200''),
       (''critical'', JSString ''bg-red-100 text-red-800 border-red-200'') ]"

definition card_getSeverityColor :: "string \<Rightarrow> js_value" where
  "card_getSeverityColor sev =
     js_or (get_property card_colors sev) (get_property card_colors ''medium'')"

text \<open>
  The icons are emoji; each is written as the bytes of its UTF-8 encoding. Both components
  define the same table and the same function.
\<close>

definition icons :: "(string \<times> js_value) list" where
  "icons =
     [ (''earthquake'', JSString [CHR 0xF0, CHR 0x9F, CHR 0x8C, CHR 0x8B]),
       (''flood'', JSString [CHR 0xF0, CHR 0x9F, CHR 0x8C, CHR 0x8A]),
       (''fire'', JSString [CHR 0xF0, CHR 0x9F, CHR 0x94, CHR 0xA5]),
       (''storm'', JSString [CHR 0xF0, CHR 0x9F, CHR 0x8C, CHR 0xAA, CHR 0xEF, CHR 0xB8, CHR 0x8F]),
       (''health_emergency'', JSString [CHR 0xF0, CHR 0x9F, CHR 0x8F, CHR 0xA5]),
       (''infrastructure_failure'', JSString [CHR 0xE2, CHR 0x9A, CHR 0xA0, CHR 0xEF, CHR 0xB8, CHR 0x8F]),
       (''other'', JSString [CHR 0xF0, CHR 0x9F, CHR 0x93, CHR 0x8D]) ]"

definition getEventIcon :: "string \<Rightarrow> js_value" where
  "getEventIcon eventType = js_or (get_property icons eventType) (get_property icons ''other'')"


section \<open>News panel and article list (NewsPanel, CrisisMap)\<close>

text \<open>
  \<^verbatim>\<open>fetchNews\<close> asks \<^verbatim>\<open>GET /api/news/crisis\<close> for the selected query with \<^verbatim>\<open>days: 7\<close> and
  \<^verbatim>\<open>limit: 15\<close> and stores \<^verbatim>\<open>response.data.articles\<close> as it comes; when the request throws
  it stores the empty list. The server is a parameter: \<open>None\<close> is a failed request.
\<close>

definition fetchNews :: "(string \<Rightarrow> nat \<Rightarrow> nat \<Rightarrow> article list option) \<Rightarrow> string \<Rightarrow> article list" where
  "fetchNews get_news_crisis selectedQuery =
     (case get_news_crisis selectedQuery 7 15 of
        Some articles \<Rightarrow> articles
      | None \<Rightarrow> [])"

text \<open>
  \<^verbatim>\<open>NewsArticlesList\<close> renders nothing for an absent or empty list and otherwise the
  entries of \<^verbatim>\<open>articles.slice(0, 3)\<close>.
\<close>

definition NewsArticlesList :: "article list option \<Rightarrow> article list option" where
  "NewsArticlesList articles =
     (case articles of
        None \<Rightarrow> None
      | Some as \<Rightarrow> if length as = 0 then None else Some (take 3 as))"


section \<open>Event enrichment pipeline (backend)\<close>

text \<open>
  The HTTP handlers (\<^verbatim>\<open>/app/backend/server.py\<close>) are not among the sources; the
  frontend only calls them. The definitions of this section follow the specification's
  description of the pipeline (sections 2, 3, 4.1 and 7).
\<close>

text \<open>
  Modelled from the spec: the closed enumeration of event type of the absent backend's
  data model ("event type (enumerated: earthquake, flood, fire, storm, health_emergency,
  infrastructure_failure, other), severity (enumerated: low, medium, high, critical)").
\<close>

datatype EventType =
  Earthquake | Flood | Fire | Storm | HealthEmergency | InfrastructureFailure | Other

text \<open>
  Modelled from the spec: the closed enumeration of severity of the absent backend's data
  model.
\<close>

datatype Severity = Low | Medium | High | Critical

text \<open>
  Modelled from the spec: the name under which the absent backend stores an event type,
  as the spec's data model spells the enumeration.
\<close>

fun event_type_name :: "EventType \<Rightarrow> string" where
  "event_type_name Earthquake = ''earthquake''"
| "event_type_name Flood = ''flood''"
| "event_type_name Fire = ''fire''"
| "event_type_name Storm = ''storm''"
| "event_type_name HealthEmergency = ''health_emergency''"
| "event_type_name InfrastructureFailure = ''infrastructure_failure''"
| "event_type_name Other = ''other''"

text \<open>
  Modelled from the spec: the name under which the absent backend stores a severity, as
  the spec's data model spells the enumeration.
\<close>

fun severity_name :: "Severity \<Rightarrow> string" where
  "severity_name Low = ''low''"
| "severity_name Medium = ''medium''"
| "severity_name High = ''high''"
| "severity_name Critical = ''critical''"

text \<open>
  Modelled from the spec: the body of \<^verbatim>\<open>POST /api/events\<close> ("body: title, description,
  location, latitude, longitude") of the absent backend. A field of the JSON body may be
  missing, which is the spec's "malformed client input (missing required fields)".
\<close>

record submission =
  sub_title :: "string option"
  sub_description :: "string option"
  sub_location :: "string option"
  sub_latitude :: "real option"
  sub_longitude :: "real option"

text \<open>
  Modelled from the spec: the request validation of the absent handler; a submission is
  valid when none of the required fields of the body is missing.
\<close>

definition valid_submission :: "submission \<Rightarrow> bool" where
  "valid_submission sub =
     (sub_title sub \<noteq> None \<and> sub_description sub \<noteq> None \<and> sub_location sub \<noteq> None
      \<and> sub_latitude sub \<noteq> None \<and> sub_longitude sub \<noteq> None)"

text \<open>
  Modelled from the spec: the classification the absent AI analysis client produces, the
  "event_type, severity, ai_summary, recommendations" of section 4.1.
\<close>

record analysis =
  an_event_type :: EventType
  an_severity :: Severity
  an_summary :: string
  an_recommendations :: "string list"

text \<open>
  Modelled from the spec: the outcomes of a call of the absent AI analysis client that
  section 4.1 tells apart: "any error", an "empty/malformed response", or a classification.
\<close>

datatype ai_reply = AIError | AIEmpty | AIMalformed | AIAnalysis analysis

text \<open>
  Modelled from the spec: step (1) of the absent pipeline, "on any error or
  empty/malformed response, substitute default values {event_type: other, severity:
  medium, summary: echo of description, recommendations: empty}".
\<close>

definition default_analysis :: "string \<Rightarrow> analysis" where
  "default_analysis descr =
     \<lparr> an_event_type = Other, an_severity = Medium, an_summary = descr,
       an_recommendations = [] \<rparr>"

text \<open>
  Modelled from the spec: the absent pipeline's choice between the AI's classification
  and the defaults of step (1).
\<close>

fun resolve_analysis :: "ai_reply \<Rightarrow> string \<Rightarrow> analysis" where
  "resolve_analysis (AIAnalysis a) descr = a"
| "resolve_analysis AIError descr = default_analysis descr"
| "resolve_analysis AIEmpty descr = default_analysis descr"
| "resolve_analysis AIMalformed descr = default_analysis descr"

text \<open>
  Modelled from the spec: the answer of the external news-search API the absent news
  lookup client calls: an error, or articles, in any number.
\<close>

datatype news_reply = NewsError | NewsArticles "article list"

text \<open>
  Modelled from the spec: the absent news lookup client, which "sends a query ... to an
  external news-search API; returns up to a bounded number of articles", called "with
  that query and a day-window/result-limit configuration". The external API is a
  parameter; the client keeps the first \<open>limit\<close> articles of its answer.
\<close>

definition news_lookup ::
  "(string \<Rightarrow> nat \<Rightarrow> news_reply) \<Rightarrow> string \<Rightarrow> nat \<Rightarrow> nat \<Rightarrow> news_reply" where
  "news_lookup api query days limit =
     (case api query days of
        NewsError \<Rightarrow> NewsError
      | NewsArticles as \<Rightarrow> NewsArticles (take limit as))"

text \<open>
  Modelled from the spec: the surroundings of the absent pipeline. The two external
  services, the derivation of the news query "from the resolved event_type and location"
  (the spec does not give its format) and the day window are parameters.
\<close>

record services =
  ai_client :: "string \<Rightarrow> string \<Rightarrow> ai_reply"
  news_api :: "string \<Rightarrow> nat \<Rightarrow> news_reply"
  news_query :: "EventType \<Rightarrow> string \<Rightarrow> string"
  news_days :: nat

text \<open>
  Modelled from the spec: the result limit the absent creation handler configures, "3 on
  creation".
\<close>

definition creation_news_limit :: nat where
  "creation_news_limit = 3"

text \<open>
  Modelled from the spec: the absent persistence adapter, which "stores and retrieves
  event records by identifier" with "single-document upsert/read". The store is the list
  of documents in insertion order, as \<^verbatim>\<open>GET /api/events\<close> returns it.
\<close>

definition get_event :: "event list \<Rightarrow> string \<Rightarrow> event option" where
  "get_event store ident = find (\<lambda>e. event_id e = ident) store"

text \<open>
  Modelled from the spec: the absent persistence adapter's write, a "single-document
  upsert": the document with the same identifier is replaced, a new one is appended.
\<close>

definition upsert :: "event \<Rightarrow> event list \<Rightarrow> event list" where
  "upsert e store =
     (if get_event store (event_id e) = None then store @ [e]
      else map (\<lambda>x. if event_id x = event_id e then e else x) store)"

text \<open>
  Modelled from the spec: the one failure the absent creation handler reports. Missing
  required fields are "surfaced as a request-validation error to the caller" and nothing
  is written. The identifier and the creation timestamp of a new event are drawn by the
  handler and are parameters of \<open>create_event\<close>.
\<close>

datatype create_error = ValidationError

text \<open>
  Modelled from the spec: the absent handler of \<^verbatim>\<open>POST /api/events\<close>: validation, then
  (1) the AI analysis with its defaults, (2) the news query from the resolved type and the
  location, (3) the news lookup with the empty list on error, (4) the write of the merged
  record, created with status active.
\<close>

definition create_event ::
  "services \<Rightarrow> submission \<Rightarrow> string \<Rightarrow> string \<Rightarrow> event list \<Rightarrow> (create_error + event) \<times> event list" where
  "create_event svc sub new_id now store =
     (case (sub_title sub, sub_description sub, sub_location sub, sub_latitude sub, sub_longitude sub) of
        (Some t, Some d, Some l, Some la, Some lo) \<Rightarrow>
          let a = resolve_analysis (ai_client svc t d) d;
              q = news_query svc (an_event_type a) l;
              arts = (case news_lookup (news_api svc) q (news_days svc) creation_news_limit of
                        NewsError \<Rightarrow> []
                      | NewsArticles as \<Rightarrow> as);
              e = \<lparr> event_id = new_id, title = t, description = d, location = l,
                    latitude = la, longitude = lo,
                    event_type = event_type_name (an_event_type a),
                    severity = severity_name (an_severity a),
                    status = ''active'',
                    ai_summary = an_summary a,
                    recommendations = an_recommendations a,
                    timestamp = now,
                    news_articles = Some arts \<rparr>
          in (Inr e, upsert e store)
      | _ \<Rightarrow> (Inl ValidationError, store))"

text \<open>
  Modelled from the spec: the absent handler of \<^verbatim>\<open>GET /api/news/crisis?query&days&limit\<close>,
  the direct news query; a failure of the news API is "recovered locally via default
  substitution", the empty list.
\<close>

definition news_crisis :: "services \<Rightarrow> string \<Rightarrow> nat \<Rightarrow> nat \<Rightarrow> article list" where
  "news_crisis svc query days limit =
     (case news_lookup (news_api svc) query days limit of
        NewsError \<Rightarrow> []
      | NewsArticles as \<Rightarrow> as)"

text \<open>
  Modelled from the spec: the invariant "news-article list length is capped" of the data
  model, for one event.
\<close>

definition within_cap :: "event \<Rightarrow> bool" where
  "within_cap e =
     (case news_articles e of None \<Rightarrow> True | Some as \<Rightarrow> length as \<le> creation_news_limit)"

text \<open>Inputs used to exercise the definitions.\<close>

definition failing_services :: services where
  "failing_services =
     \<lparr> ai_client = (\<lambda>t d. AIError), news_api = (\<lambda>q n. NewsError),
       news_query = (\<lambda>ty l. event_type_name ty @ '' '' @ l), news_days = 7 \<rparr>"

definition sample_article :: "string \<Rightarrow> article" where
  "sample_article t =
     \<lparr> article_title = t, article_description = ''-'', article_source = ''wire'',
       article_url = ''-'', article_url_to_image = ''-'', article_published_at = ''-'' \<rparr>"

definition busy_services :: services where
  "busy_services =
     \<lparr> ai_client = (\<lambda>t d. AIMalformed),
       news_api = (\<lambda>q n. NewsArticles (map sample_article [''a'', ''b'', ''c'', ''d'', ''e''])),
       news_query = (\<lambda>ty l. event_type_name ty @ '' '' @ l), news_days = 7 \<rparr>"

definition sample_submission :: submission where
  "sample_submission =
     \<lparr> sub_title = Some ''Severe Heatwave in Rajasthan'',
       sub_description = Some ''Temperatures above 48 degrees'',
       sub_location = Some ''Jaipur, Rajasthan'',
       sub_latitude = Some 26.9124, sub_longitude = Some 75.7873 \<rparr>"


section \<open>Properties of the presentation filter\<close>

text \<open>
  C3. The filter returns exactly the events matching both selectors: an event is in the
  result if and only if it is in the input, its type matches the type selector (or that
  selector is "all") and its severity matches the severity selector (or that selector is
  "all"). In particular, with the severity selector at "all", the result holds exactly the
  input events whose type matches the type selector.
\<close>

theorem filteredEvents_and_semantics:
  "(e \<in> set (filteredEvents events selType selSev) \<longleftrightarrow>
      e \<in> set events
      \<and> (selType = ''all'' \<or> event_type e = selType)
      \<and> (selSev = ''all'' \<or> severity e = selSev))
   \<and> (e \<in> set (filteredEvents events selType ''all'') \<longleftrightarrow>
      e \<in> set events \<and> (selType = ''all'' \<or> event_type e = selType))"
  by (simp add: filteredEvents_def)

text \<open>
  C4. With both selectors at "all" the filter is the identity on the event list.
\<close>

theorem filteredEvents_all_all:
  "filteredEvents events ''all'' ''all'' = events"
  by (simp add: filteredEvents_def)

text \<open>
  C9. The filtered list is a subsequence of the input: every element of it is an element
  of the input, no event occurs more often than in the input, the relative order is the
  input's, and it is no longer than the input.
\<close>

theorem filteredEvents_subseq:
  "subseq (filteredEvents events selType selSev) events
   \<and> set (filteredEvents events selType selSev) \<subseteq> set events
   \<and> count_list (filteredEvents events selType selSev) e \<le> count_list events e
   \<and> length (filteredEvents events selType selSev) \<le> length events"
proof -
  have cnt: "count_list (filter P xs) x \<le> count_list xs x" for P and xs :: "event list" and x
    by (induction xs) auto
  show ?thesis
    unfolding filteredEvents_def
    by (intro conjI subseq_filter_left filter_is_subset cnt length_filter_le)
qed


section \<open>Properties of the dashboard statistics\<close>

text \<open>
  C10. \<open>getStats\<close> returns the length of the list as \<open>total\<close>, and as \<open>critical\<close>,
  \<open>high\<close>, \<open>active\<close> and \<open>withNews\<close> the number of positions of the list holding an
  event of severity 'critical', of severity 'high', of status 'active', and with a
  non-empty article list; none of the four exceeds \<open>total\<close>.
\<close>

theorem getStats_counts:
  "total (getStats events) = length events
   \<and> critical (getStats events) = card {i. i < length events \<and> severity (events ! i) = ''critical''}
   \<and> high (getStats events) = card {i. i < length events \<and> severity (events ! i) = ''high''}
   \<and> active (getStats events) = card {i. i < length events \<and> status (events ! i) = ''active''}
   \<and> withNews (getStats events) =
       card {i. i < length events \<and> (\<exists>as. news_articles (events ! i) = Some as \<and> as \<noteq> [])}
   \<and> critical (getStats events) \<le> total (getStats events)
   \<and> high (getStats events) \<le> total (getStats events)
   \<and> active (getStats events) \<le> total (getStats events)
   \<and> withNews (getStats events) \<le> total (getStats events)"
proof -
  have news: "hasNews e \<longleftrightarrow> (\<exists>as. news_articles e = Some as \<and> as \<noteq> [])" for e
    by (cases "news_articles e") (simp_all add: hasNews_def)
  have "withNews (getStats events) = card {i. i < length events \<and> hasNews (events ! i)}"
    by (simp add: getStats_def length_filter_conv_card)
  then have w: "withNews (getStats events) =
      card {i. i < length events \<and> (\<exists>as. news_articles (events ! i) = Some as \<and> as \<noteq> [])}"
    by (simp only: news)
  have rest: "total (getStats events) = length events
     \<and> critical (getStats events) = card {i. i < length events \<and> severity (events ! i) = ''critical''}
     \<and> high (getStats events) = card {i. i < length events \<and> severity (events ! i) = ''high''}
     \<and> active (getStats events) = card {i. i < length events \<and> status (events ! i) = ''active''}"
    by (simp add: getStats_def length_filter_conv_card)
  have bounds: "critical (getStats events) \<le> total (getStats events)
     \<and> high (getStats events) \<le> total (getStats events)
     \<and> active (getStats events) \<le> total (getStats events)
     \<and> withNews (getStats events) \<le> total (getStats events)"
    by (simp add: getStats_def)
  from rest w bounds show ?thesis by blast
qed


section \<open>Properties of the display helpers\<close>

lemma get_property_colors_medium: "get_property colors ''medium'' = JSString ''#f59e0b''"
  by (simp add: get_property_def colors_def)

lemma get_property_card_colors_medium:
  "get_property card_colors ''medium'' = JSString ''bg-yellow-100 text-yellow-800 border-yellow-200''"
  by (simp add: get_property_def card_colors_def)

lemma get_property_icons_other:
  "get_property icons ''other'' = JSString [CHR 0xF0, CHR 0x9F, CHR 0x93, CHR 0x8D]"
  by (simp add: get_property_def icons_def)

text \<open>No helper ever returns \<^verbatim>\<open>undefined\<close>: the fallback is a non-empty string.\<close>

lemma js_or_defined: "b \<noteq> JSUndefined \<Longrightarrow> js_or a b \<noteq> JSUndefined"
  by (cases a) (simp_all add: js_or_def)

lemma helpers_never_undefined:
  "getSeverityColor sev \<noteq> JSUndefined"
  "card_getSeverityColor sev \<noteq> JSUndefined"
  "getEventIcon eventType \<noteq> JSUndefined"
  unfolding getSeverityColor_def card_getSeverityColor_def getEventIcon_def
  by (rule js_or_defined,
      simp add: get_property_colors_medium get_property_card_colors_medium get_property_icons_other)+

text \<open>
  A name that is neither a key of the table nor a property of \<^verbatim>\<open>Object.prototype\<close> gets
  the fallback.
\<close>

lemma getSeverityColor_fallback:
  assumes "sev \<notin> {''low'', ''medium'', ''high'', ''critical''}"
    and "map_of Object_prototype sev = None"
  shows "getSeverityColor sev = JSString ''#f59e0b''"
    and "card_getSeverityColor sev = JSString ''bg-yellow-100 text-yellow-800 border-yellow-200''"
  using assms
  by (simp_all add: getSeverityColor_def card_getSeverityColor_def get_property_def colors_def
      card_colors_def js_or_def)

lemma getEventIcon_fallback:
  assumes "eventType \<notin> {''earthquake'', ''flood'', ''fire'', ''storm'', ''health_emergency'',
      ''infrastructure_failure'', ''other''}"
    and "map_of Object_prototype eventType = None"
  shows "getEventIcon eventType = JSString [CHR 0xF0, CHR 0x9F, CHR 0x93, CHR 0x8D]"
  using assms
  by (simp add: getEventIcon_def get_property_def icons_def js_or_def)

text \<open>
  C8. The helpers are meant to return the medium colour, or the 'other' icon, for every
  string outside their tables. At the string \<^verbatim>\<open>constructor\<close>, which is in neither
  table, the property read finds \<^verbatim>\<open>Object.prototype.constructor\<close>, a truthy function, and
  the \<^verbatim>\<open>||\<close> fallback is not taken: the helpers return the function \<^verbatim>\<open>Object\<close>.
\<close>

theorem helpers_at_constructor:
  "''constructor'' \<notin> {''low'', ''medium'', ''high'', ''critical''}
   \<and> ''constructor'' \<notin> {''earthquake'', ''flood'', ''fire'', ''storm'', ''health_emergency'',
        ''infrastructure_failure'', ''other''}
   \<and> getSeverityColor ''constructor'' = JSBuiltin ''Object''
   \<and> getSeverityColor ''constructor'' \<noteq> get_property colors ''medium''
   \<and> card_getSeverityColor ''constructor'' = JSBuiltin ''Object''
   \<and> card_getSeverityColor ''constructor'' \<noteq> get_property card_colors ''medium''
   \<and> getEventIcon ''constructor'' = JSBuiltin ''Object''
   \<and> getEventIcon ''constructor'' \<noteq> get_property icons ''other''"
  by (simp add: getSeverityColor_def card_getSeverityColor_def getEventIcon_def get_property_def
      colors_def card_colors_def icons_def Object_prototype_def js_or_def)


section \<open>Properties of the event enrichment pipeline\<close>

subsection \<open>The store\<close>

lemma get_event_upsert_same: "get_event (upsert e store) (event_id e) = Some e"
  unfolding upsert_def get_event_def
  by (induction store) auto

lemma find_snoc:
  "find P (xs @ [y]) = (case find P xs of Some x \<Rightarrow> Some x | None \<Rightarrow> if P y then Some y else None)"
  by (induction xs) auto

lemma find_replace_other:
  "ident \<noteq> event_id e \<Longrightarrow>
   find (\<lambda>x. event_id x = ident) (map (\<lambda>x. if event_id x = event_id e then e else x) xs)
     = find (\<lambda>x. event_id x = ident) xs"
  by (induction xs) auto

text \<open>Writing one document leaves the documents under every other identifier as they are.\<close>

lemma get_event_upsert_other:
  "ident \<noteq> event_id e \<Longrightarrow> get_event (upsert e store) ident = get_event store ident"
  by (simp add: upsert_def get_event_def find_snoc find_replace_other split: option.splits)

subsection \<open>The creation handler\<close>

text \<open>The record a complete submission is turned into, whatever the two services answer.\<close>

lemma create_event_fields:
  assumes "sub_title sub = Some t" "sub_description sub = Some d" "sub_location sub = Some l"
    "sub_latitude sub = Some la" "sub_longitude sub = Some lo"
  shows "\<exists>e arts.
      create_event svc sub new_id now store = (Inr e, upsert e store)
      \<and> event_id e = new_id \<and> title e = t \<and> description e = d \<and> location e = l
      \<and> latitude e = la \<and> longitude e = lo
      \<and> event_type e = event_type_name (an_event_type (resolve_analysis (ai_client svc t d) d))
      \<and> severity e = severity_name (an_severity (resolve_analysis (ai_client svc t d) d))
      \<and> ai_summary e = an_summary (resolve_analysis (ai_client svc t d) d)
      \<and> recommendations e = an_recommendations (resolve_analysis (ai_client svc t d) d)
      \<and> status e = ''active'' \<and> timestamp e = now
      \<and> news_articles e = Some arts \<and> length arts \<le> creation_news_limit"
proof -
  define a where "a = resolve_analysis (ai_client svc t d) d"
  define arts where "arts =
    (case news_lookup (news_api svc) (news_query svc (an_event_type a) l) (news_days svc)
            creation_news_limit of
       NewsError \<Rightarrow> [] | NewsArticles as \<Rightarrow> as)"
  define e where "e =
    \<lparr> event_id = new_id, title = t, description = d, location = l,
      latitude = la, longitude = lo,
      event_type = event_type_name (an_event_type a),
      severity = severity_name (an_severity a),
      status = ''active'',
      ai_summary = an_summary a,
      recommendations = an_recommendations a,
      timestamp = now,
      news_articles = Some arts \<rparr>"
  have len: "length arts \<le> creation_news_limit"
    by (simp add: arts_def news_lookup_def split: news_reply.splits)
  have c: "create_event svc sub new_id now store = (Inr e, upsert e store)"
    by (simp add: create_event_def assms a_def arts_def e_def Let_def)
  have fields: "event_id e = new_id \<and> title e = t \<and> description e = d \<and> location e = l
      \<and> latitude e = la \<and> longitude e = lo
      \<and> event_type e = event_type_name (an_event_type a)
      \<and> severity e = severity_name (an_severity a)
      \<and> ai_summary e = an_summary a
      \<and> recommendations e = an_recommendations a
      \<and> status e = ''active'' \<and> timestamp e = now
      \<and> news_articles e = Some arts"
    by (simp add: e_def)
  from c fields len show ?thesis
    unfolding a_def by blast
qed

lemma valid_submission_fields:
  assumes "valid_submission sub"
  obtains t d l la lo where
    "sub_title sub = Some t" "sub_description sub = Some d" "sub_location sub = Some l"
    "sub_latitude sub = Some la" "sub_longitude sub = Some lo"
  using assms by (auto simp: valid_submission_def)

text \<open>A submission with a missing field is refused and nothing is written.\<close>

lemma create_event_invalid:
  "\<not> valid_submission sub \<Longrightarrow> create_event svc sub new_id now store = (Inl ValidationError, store)"
  by (auto simp: create_event_def valid_submission_def split: option.splits)

lemma resolve_analysis_default:
  "reply \<in> {AIError, AIEmpty, AIMalformed} \<Longrightarrow> resolve_analysis reply d = default_analysis d"
  by auto

text \<open>A creation leaves the events stored under other identifiers as they are.\<close>

lemma create_event_frame:
  "ident \<noteq> new_id \<Longrightarrow>
   get_event (snd (create_event svc sub new_id now store)) ident = get_event store ident"
proof (cases "valid_submission sub")
  case False
  then show ?thesis by (simp add: create_event_invalid)
next
  case True
  assume n: "ident \<noteq> new_id"
  from True obtain t d l la lo where
    "sub_title sub = Some t" "sub_description sub = Some d" "sub_location sub = Some l"
    "sub_latitude sub = Some la" "sub_longitude sub = Some lo"
    by (rule valid_submission_fields)
  from create_event_fields [OF this, of svc new_id now store]
  obtain e where "create_event svc sub new_id now store = (Inr e, upsert e store)"
    and "event_id e = new_id"
    by blast
  with n show ?thesis by (simp add: get_event_upsert_other)
qed

text \<open>
  C1. A valid submission is always created: whatever the AI client and the news API
  answer, errors included, the call returns the new event and the store holds it under
  its identifier.
\<close>

theorem create_event_succeeds:
  assumes "valid_submission sub"
  shows "\<exists>e. fst (create_event svc sub new_id now store) = Inr e
           \<and> event_id e = new_id
           \<and> get_event (snd (create_event svc sub new_id now store)) new_id = Some e"
proof -
  from assms obtain t d l la lo where
    "sub_title sub = Some t" "sub_description sub = Some d" "sub_location sub = Some l"
    "sub_latitude sub = Some la" "sub_longitude sub = Some lo"
    by (rule valid_submission_fields)
  from create_event_fields [OF this, of svc new_id now store]
  obtain e where c: "create_event svc sub new_id now store = (Inr e, upsert e store)"
    and i: "event_id e = new_id"
    by blast
  from i have "get_event (upsert e store) new_id = Some e"
    using get_event_upsert_same [of e store] by simp
  with c i show ?thesis by simp
qed

theorem create_event_succeeds_witness:
  "valid_submission sample_submission
   \<and> ai_client failing_services ''Severe Heatwave in Rajasthan'' ''Temperatures above 48 degrees'' = AIError
   \<and> news_api failing_services ''other Jaipur, Rajasthan'' 7 = NewsError
   \<and> (\<exists>e. fst (create_event failing_services sample_submission ''ev-1'' ''2025-06-01'' []) = Inr e
         \<and> event_id e = ''ev-1''
         \<and> get_event (snd (create_event failing_services sample_submission ''ev-1'' ''2025-06-01'' []))
             ''ev-1'' = Some e)"
proof -
  have v: "valid_submission sample_submission"
    by (simp add: valid_submission_def sample_submission_def)
  have f: "ai_client failing_services ''Severe Heatwave in Rajasthan'' ''Temperatures above 48 degrees'' = AIError"
    "news_api failing_services ''other Jaipur, Rajasthan'' 7 = NewsError"
    by (simp_all add: failing_services_def)
  from v f create_event_succeeds [OF v, of failing_services "''ev-1''" "''2025-06-01''" "[]"]
  show ?thesis by blast
qed

text \<open>
  C2. When the AI client fails, or answers with an empty or malformed response, the
  stored event has type other, severity medium, the submitted description as its summary
  and no recommendations.
\<close>

theorem create_event_ai_fallback:
  assumes "valid_submission sub"
    and "sub_title sub = Some t" and "sub_description sub = Some d"
    and "ai_client svc t d \<in> {AIError, AIEmpty, AIMalformed}"
  shows "\<exists>e. fst (create_event svc sub new_id now store) = Inr e
           \<and> get_event (snd (create_event svc sub new_id now store)) new_id = Some e
           \<and> event_type e = ''other'' \<and> severity e = ''medium''
           \<and> ai_summary e = d \<and> recommendations e = []"
proof -
  have r: "resolve_analysis (ai_client svc t d) d = default_analysis d"
    using assms(4) by (rule resolve_analysis_default)
  from assms(1) obtain t' d' l la lo where f:
    "sub_title sub = Some t'" "sub_description sub = Some d'" "sub_location sub = Some l"
    "sub_latitude sub = Some la" "sub_longitude sub = Some lo"
    by (rule valid_submission_fields)
  from f assms(2,3) have td: "t' = t" "d' = d" by simp_all
  from create_event_fields [OF f, of svc new_id now store]
  obtain e where c: "create_event svc sub new_id now store = (Inr e, upsert e store)"
    and i: "event_id e = new_id"
    and ty: "event_type e = event_type_name (an_event_type (resolve_analysis (ai_client svc t d) d))"
    and sv: "severity e = severity_name (an_severity (resolve_analysis (ai_client svc t d) d))"
    and su: "ai_summary e = an_summary (resolve_analysis (ai_client svc t d) d)"
    and re: "recommendations e = an_recommendations (resolve_analysis (ai_client svc t d) d)"
    unfolding td by blast
  from i have g: "get_event (upsert e store) new_id = Some e"
    using get_event_upsert_same [of e store] by simp
  from ty sv su re have "event_type e = ''other'' \<and> severity e = ''medium''
      \<and> ai_summary e = d \<and> recommendations e = []"
    by (simp add: r default_analysis_def)
  with c g show ?thesis by simp
qed

theorem create_event_ai_fallback_witness:
  "valid_submission sample_submission
   \<and> ai_client busy_services ''Severe Heatwave in Rajasthan'' ''Temperatures above 48 degrees''
       \<in> {AIError, AIEmpty, AIMalformed}
   \<and> (\<exists>e. fst (create_event busy_services sample_submission ''ev-1'' ''2025-06-01'' []) = Inr e
         \<and> get_event (snd (create_event busy_services sample_submission ''ev-1'' ''2025-06-01'' []))
             ''ev-1'' = Some e
         \<and> event_type e = ''other'' \<and> severity e = ''medium''
         \<and> ai_summary e = ''Temperatures above 48 degrees'' \<and> recommendations e = [])"
proof -
  have v: "valid_submission sample_submission"
    by (simp add: valid_submission_def sample_submission_def)
  have t: "sub_title sample_submission = Some ''Severe Heatwave in Rajasthan''"
    and d: "sub_description sample_submission = Some ''Temperatures above 48 degrees''"
    by (simp_all add: sample_submission_def)
  have a: "ai_client busy_services ''Severe Heatwave in Rajasthan'' ''Temperatures above 48 degrees''
       \<in> {AIError, AIEmpty, AIMalformed}"
    by (simp add: busy_services_def)
  from v a create_event_ai_fallback [OF v t d a, of "''ev-1''" "''2025-06-01''" "[]"]
  show ?thesis by blast
qed

subsection \<open>The article cap\<close>

lemma news_crisis_bounded: "length (news_crisis svc query days limit) \<le> limit"
  by (simp add: news_crisis_def news_lookup_def split: news_reply.splits)

lemma NewsArticlesList_bounded: "NewsArticlesList articles = Some shown \<Longrightarrow> length shown \<le> 3"
  by (auto simp: NewsArticlesList_def split: option.splits if_splits)

lemma list_all_upsert:
  "list_all P store \<Longrightarrow> P e \<Longrightarrow> list_all P (upsert e store)"
  by (auto simp: upsert_def list_all_iff)

text \<open>
  C5. The article list of an event never exceeds the cap: a creation attaches at most 3
  articles, so a store whose events are all within the cap stays so; a direct news query
  returns at most the requested limit, hence at most 15 on the news panel's query.
\<close>

theorem news_articles_capped:
  "(valid_submission sub \<longrightarrow>
      (\<exists>e as. fst (create_event svc sub new_id now store) = Inr e
         \<and> news_articles e = Some as \<and> length as \<le> 3))
   \<and> (list_all within_cap store \<longrightarrow>
        list_all within_cap (snd (create_event svc sub new_id now store)))
   \<and> length (news_crisis svc query days limit) \<le> limit
   \<and> length (fetchNews (\<lambda>q d l. Some (news_crisis svc q d l)) selectedQuery) \<le> 15"
proof -
  have created: "\<exists>e as. create_event svc sub new_id now store = (Inr e, upsert e store)
      \<and> news_articles e = Some as \<and> length as \<le> 3" if "valid_submission sub"
  proof -
    from that obtain t d l la lo where
      "sub_title sub = Some t" "sub_description sub = Some d" "sub_location sub = Some l"
      "sub_latitude sub = Some la" "sub_longitude sub = Some lo"
      by (rule valid_submission_fields)
    from create_event_fields [OF this, of svc new_id now store]
    show ?thesis unfolding creation_news_limit_def by blast
  qed
  have first: "valid_submission sub \<longrightarrow>
      (\<exists>e as. fst (create_event svc sub new_id now store) = Inr e
         \<and> news_articles e = Some as \<and> length as \<le> 3)"
  proof
    assume "valid_submission sub"
    from created [OF this] obtain e as where
      "create_event svc sub new_id now store = (Inr e, upsert e store)"
      "news_articles e = Some as" "length as \<le> 3"
      by blast
    then have "fst (create_event svc sub new_id now store) = Inr e
         \<and> news_articles e = Some as \<and> length as \<le> 3"
      by simp
    then show "\<exists>e as. fst (create_event svc sub new_id now store) = Inr e
         \<and> news_articles e = Some as \<and> length as \<le> 3"
      by blast
  qed
  have second: "list_all within_cap store \<longrightarrow>
        list_all within_cap (snd (create_event svc sub new_id now store))"
  proof
    assume inv: "list_all within_cap store"
    show "list_all within_cap (snd (create_event svc sub new_id now store))"
    proof (cases "valid_submission sub")
      case False
      with inv show ?thesis by (simp add: create_event_invalid)
    next
      case True
      from created [OF True] obtain e as where
        c: "create_event svc sub new_id now store = (Inr e, upsert e store)"
        and "news_articles e = Some as" "length as \<le> 3"
        by blast
      then have "within_cap e" by (simp add: within_cap_def creation_news_limit_def)
      with inv c show ?thesis by (simp add: list_all_upsert)
    qed
  qed
  have third: "length (news_crisis svc query days limit) \<le> limit"
    by (rule news_crisis_bounded)
  have fourth: "length (fetchNews (\<lambda>q d l. Some (news_crisis svc q d l)) selectedQuery) \<le> 15"
    by (simp add: fetchNews_def news_crisis_bounded)
  from first second third fourth show ?thesis by blast
qed

theorem news_articles_capped_witness:
  "valid_submission sample_submission
   \<and> list_all within_cap []
   \<and> (\<exists>e as. fst (create_event busy_services sample_submission ''ev-1'' ''2025-06-01'' []) = Inr e
         \<and> news_articles e = Some as \<and> length as \<le> 3)
   \<and> list_all within_cap (snd (create_event busy_services sample_submission ''ev-1'' ''2025-06-01'' []))
   \<and> length (news_crisis busy_services ''flood india'' 7 2) \<le> 2
   \<and> length (fetchNews (\<lambda>q d l. Some (news_crisis busy_services q d l)) ''flood india'') \<le> 15"
proof -
  have v: "valid_submission sample_submission"
    by (simp add: valid_submission_def sample_submission_def)
  have s: "list_all within_cap []"
    by simp
  from v s
    news_articles_capped [where sub = sample_submission and svc = busy_services
      and new_id = "''ev-1''" and now = "''2025-06-01''" and store = "[]"
      and query = "''flood india''" and days = 7 and limit = 2
      and selectedQuery = "''flood india''"]
  show ?thesis by blast
qed

text \<open>The cap cuts: the news API answers with five articles, three are stored and two returned.\<close>

lemma cap_example:
  "(\<exists>e as. fst (create_event busy_services sample_submission ''ev-1'' ''2025-06-01'' []) = Inr e
       \<and> news_articles e = Some as \<and> length as = 3)
   \<and> length (news_crisis busy_services ''flood india'' 7 2) = 2"
  by (simp add: create_event_def busy_services_def sample_submission_def news_lookup_def
      news_crisis_def creation_news_limit_def upsert_def get_event_def Let_def)

subsection \<open>Create, then fetch\<close>

text \<open>
  C6. Fetching a created event by its identifier returns a record with the submitted
  title, location, latitude and longitude.
\<close>

theorem create_then_fetch_roundtrip:
  assumes "valid_submission sub"
  shows "\<exists>e e'. fst (create_event svc sub new_id now store) = Inr e
           \<and> get_event (snd (create_event svc sub new_id now store)) (event_id e) = Some e'
           \<and> Some (title e') = sub_title sub
           \<and> Some (location e') = sub_location sub
           \<and> Some (latitude e') = sub_latitude sub
           \<and> Some (longitude e') = sub_longitude sub"
proof -
  from assms obtain t d l la lo where f:
    "sub_title sub = Some t" "sub_description sub = Some d" "sub_location sub = Some l"
    "sub_latitude sub = Some la" "sub_longitude sub = Some lo"
    by (rule valid_submission_fields)
  from create_event_fields [OF f, of svc new_id now store]
  obtain e where c: "create_event svc sub new_id now store = (Inr e, upsert e store)"
    and fields: "title e = t" "location e = l" "latitude e = la" "longitude e = lo"
    by blast
  have g: "get_event (upsert e store) (event_id e) = Some e"
    by (rule get_event_upsert_same)
  from c g fields f have "fst (create_event svc sub new_id now store) = Inr e
           \<and> get_event (snd (create_event svc sub new_id now store)) (event_id e) = Some e
           \<and> Some (title e) = sub_title sub
           \<and> Some (location e) = sub_location sub
           \<and> Some (latitude e) = sub_latitude sub
           \<and> Some (longitude e) = sub_longitude sub"
    by simp
  then show ?thesis by blast
qed

theorem create_then_fetch_roundtrip_witness:
  "valid_submission sample_submission
   \<and> (\<exists>e e'. fst (create_event failing_services sample_submission ''ev-2'' ''2025-06-02''
                  (snd (create_event busy_services sample_submission ''ev-1'' ''2025-06-01'' []))) = Inr e
         \<and> get_event (snd (create_event failing_services sample_submission ''ev-2'' ''2025-06-02''
                  (snd (create_event busy_services sample_submission ''ev-1'' ''2025-06-01'' []))))
             (event_id e) = Some e'
         \<and> Some (title e') = sub_title sample_submission
         \<and> Some (location e') = sub_location sample_submission
         \<and> Some (latitude e') = sub_latitude sample_submission
         \<and> Some (longitude e') = sub_longitude sample_submission)"
proof -
  have v: "valid_submission sample_submission"
    by (simp add: valid_submission_def sample_submission_def)
  from v create_then_fetch_roundtrip [OF v, of failing_services "''ev-2''" "''2025-06-02''"
      "snd (create_event busy_services sample_submission ''ev-1'' ''2025-06-01'' [])"]
  show ?thesis by blast
qed

end
